theory Spec2Isabelle
  imports Complex_Main "HOL-Library.Sublist"
begin

section \<open>Python values and the built-in operations the tools rely on\<close>

text \<open>
  The three tools (\<^verbatim>\<open>schema_analyzer.py\<close>, \<^verbatim>\<open>schema_checker.py\<close>,
  \<^verbatim>\<open>schema_purger.py\<close>) work on parsed JSON: \<^verbatim>\<open>None\<close>, booleans, integers,
  floats, strings, lists and dicts. A dict is an association list in insertion order whose
  keys are pairwise different; a float is the rational number it denotes (JSON has no NaN or
  infinity).
\<close>

datatype pyval =
    PNone
  | PBool bool
  | PInt int
  | PFloat rat
  | PStr string
  | PList "pyval list"
  | PDict "(pyval \<times> pyval) list"

text \<open>The body of an HTTP response: JSON, or text that \<^verbatim>\<open>response.json()\<close> rejects.\<close>

datatype body = Json pyval | NotJson string

text \<open>
  An f-string is kept as its fragments: the literal parts and the interpolated values, not
  rendered to text. \<open>T b\<close> is \<^verbatim>\<open>{response.text}\<close> and \<open>KB2 n\<close> is \<^verbatim>\<open>{n / 1024:.2f}\<close>.
  An exception is its class together with what \<^verbatim>\<open>str(e)\<close> is built from.
\<close>

datatype exn =
    Timeout string
  | ConnectionError string
  | RequestException string
  | HTTPError nat
  | JSONDecodeError
  | TypeError
  | KeyError
  | AttributeError
  | IndexError
  | Exception "frag list"
and frag =
    S string
  | V pyval
  | N nat
  | E exn
  | T body
  | KB2 nat

type_synonym fstring = "frag list"

text \<open>Python's \<^verbatim>\<open>==\<close>: numbers and booleans compare by value (\<^verbatim>\<open>True == 1 == 1.0\<close>),
  lists element by element, dicts entry by entry whatever the order.\<close>

fun num_val :: "pyval \<Rightarrow> rat option" where
  "num_val (PBool b) = Some (if b then 1 else 0)"
| "num_val (PInt i) = Some (of_int i)"
| "num_val (PFloat q) = Some q"
| "num_val _ = None"

fun atom_eq :: "pyval \<Rightarrow> pyval \<Rightarrow> bool" where
  "atom_eq PNone PNone = True"
| "atom_eq (PStr s) (PStr t) = (s = t)"
| "atom_eq a b = (case (num_val a, num_val b) of (Some x, Some y) \<Rightarrow> x = y | _ \<Rightarrow> False)"

fun py_eq :: "pyval \<Rightarrow> pyval \<Rightarrow> bool"
  and py_eq_list :: "pyval list \<Rightarrow> pyval list \<Rightarrow> bool"
  and dict_sub :: "(pyval \<times> pyval) list \<Rightarrow> (pyval \<times> pyval) list \<Rightarrow> bool"
  and dict_has :: "pyval \<Rightarrow> pyval \<Rightarrow> (pyval \<times> pyval) list \<Rightarrow> bool" where
  "py_eq (PList xs) (PList ys) = py_eq_list xs ys"
| "py_eq (PDict kvs) (PDict kws) = (length kvs = length kws \<and> dict_sub kvs kws)"
| "py_eq a b = atom_eq a b"
| "py_eq_list [] [] = True"
| "py_eq_list (x # xs) (y # ys) = (py_eq x y \<and> py_eq_list xs ys)"
| "py_eq_list _ _ = False"
| "dict_sub [] kws = True"
| "dict_sub ((k, v) # kvs) kws = (dict_has k v kws \<and> dict_sub kvs kws)"
| "dict_has k v [] = False"
| "dict_has k v ((k', w) # kws) = (if atom_eq k k' then py_eq v w else dict_has k v kws)"

text \<open>Lists and dicts are unhashable: as a dict key they raise \<^verbatim>\<open>TypeError\<close>.\<close>

fun hashable :: "pyval \<Rightarrow> bool" where
  "hashable (PList _) = False"
| "hashable (PDict _) = False"
| "hashable _ = True"

fun lookup :: "(pyval \<times> pyval) list \<Rightarrow> pyval \<Rightarrow> pyval option" where
  "lookup [] k = None"
| "lookup ((k', v) # kvs) k = (if atom_eq k' k then Some v else lookup kvs k)"

text \<open>\<^verbatim>\<open>d[k] = v\<close>: an existing key keeps its place, a new one goes last.\<close>

fun dict_set :: "(pyval \<times> pyval) list \<Rightarrow> pyval \<Rightarrow> pyval \<Rightarrow> (pyval \<times> pyval) list" where
  "dict_set [] k v = [(k, v)]"
| "dict_set ((k', w) # kvs) k v =
     (if atom_eq k' k then (k', v) # kvs else (k', w) # dict_set kvs k v)"

text \<open>\<^verbatim>\<open>len(x)\<close>\<close>

fun py_len :: "pyval \<Rightarrow> exn + nat" where
  "py_len (PStr s) = Inr (length s)"
| "py_len (PList xs) = Inr (length xs)"
| "py_len (PDict kvs) = Inr (length kvs)"
| "py_len _ = Inl TypeError"

text \<open>\<^verbatim>\<open>for x in v\<close>: a string gives its characters, a dict its keys.\<close>

fun py_iter :: "pyval \<Rightarrow> exn + pyval list" where
  "py_iter (PStr s) = Inr (map (\<lambda>c. PStr [c]) s)"
| "py_iter (PList xs) = Inr xs"
| "py_iter (PDict kvs) = Inr (map fst kvs)"
| "py_iter _ = Inl TypeError"

text \<open>\<^verbatim>\<open>v[:n]\<close> for \<open>n \<ge> 0\<close>; a dict cannot be sliced.\<close>

fun py_slice :: "pyval \<Rightarrow> nat \<Rightarrow> exn + pyval" where
  "py_slice (PStr s) n = Inr (PStr (take n s))"
| "py_slice (PList xs) n = Inr (PList (take n xs))"
| "py_slice _ n = Inl TypeError"

text \<open>\<^verbatim>\<open>d.get(key, default)\<close> on a dict, and on any value: only a dict has \<^verbatim>\<open>get\<close>.\<close>

definition dict_get :: "(pyval \<times> pyval) list \<Rightarrow> string \<Rightarrow> pyval \<Rightarrow> pyval" where
  "dict_get kvs key dflt = (case lookup kvs (PStr key) of Some v \<Rightarrow> v | None \<Rightarrow> dflt)"

fun py_get :: "pyval \<Rightarrow> string \<Rightarrow> pyval \<Rightarrow> exn + pyval" where
  "py_get (PDict kvs) key dflt = Inr (dict_get kvs key dflt)"
| "py_get _ key dflt = Inl AttributeError"

text \<open>\<^verbatim>\<open>v["key"]\<close>\<close>

fun py_item :: "pyval \<Rightarrow> string \<Rightarrow> exn + pyval" where
  "py_item (PDict kvs) key =
     (case lookup kvs (PStr key) of Some v \<Rightarrow> Inr v | None \<Rightarrow> Inl KeyError)"
| "py_item _ key = Inl TypeError"

text \<open>\<^verbatim>\<open>v[0]\<close>\<close>

fun py_item0 :: "pyval \<Rightarrow> exn + pyval" where
  "py_item0 (PList []) = Inl IndexError"
| "py_item0 (PList (x # xs)) = Inr x"
| "py_item0 (PStr []) = Inl IndexError"
| "py_item0 (PStr (c # cs)) = Inr (PStr [c])"
| "py_item0 (PDict kvs) =
     (case lookup kvs (PInt 0) of Some v \<Rightarrow> Inr v | None \<Rightarrow> Inl KeyError)"
| "py_item0 _ = Inl TypeError"

text \<open>\<^verbatim>\<open>item in container\<close>: substring test on a string, element test on a list, key test
  on a dict.\<close>

fun py_in :: "pyval \<Rightarrow> pyval \<Rightarrow> exn + bool" where
  "py_in (PStr p) (PStr s) = Inr (sublist p s)"
| "py_in item (PStr s) = Inl TypeError"
| "py_in item (PList xs) = Inr (list_ex (\<lambda>x. py_eq x item) xs)"
| "py_in item (PDict kvs) =
     (if hashable item then Inr (lookup kvs item \<noteq> None) else Inl TypeError)"
| "py_in item _ = Inl TypeError"

text \<open>Truth value of a Python value, as \<^verbatim>\<open>if v:\<close> takes it.\<close>

fun truthy :: "pyval \<Rightarrow> bool" where
  "truthy PNone = False"
| "truthy (PBool b) = b"
| "truthy (PInt i) = (i \<noteq> 0)"
| "truthy (PFloat q) = (q \<noteq> 0)"
| "truthy (PStr s) = (s \<noteq> [])"
| "truthy (PList xs) = (xs \<noteq> [])"
| "truthy (PDict kvs) = (kvs \<noteq> [])"

section \<open>\<^verbatim>\<open>schema_analyzer.py\<close>: Avro to JSON Schema, and example messages\<close>

definition type_mapping :: "(string \<times> pyval) list" where
  "type_mapping =
     [(''string'', PDict [(PStr ''type'', PStr ''string'')]),
      (''int'', PDict [(PStr ''type'', PStr ''integer'')]),
      (''long'', PDict [(PStr ''type'', PStr ''integer''), (PStr ''format'', PStr ''int64'')]),
      (''float'', PDict [(PStr ''type'', PStr ''number''), (PStr ''format'', PStr ''float'')]),
      (''double'', PDict [(PStr ''type'', PStr ''number''), (PStr ''format'', PStr ''double'')]),
      (''boolean'', PDict [(PStr ''type'', PStr ''boolean'')]),
      (''bytes'', PDict [(PStr ''type'', PStr ''string''),
                         (PStr ''contentEncoding'', PStr ''base64'')]),
      (''null'', PDict [(PStr ''type'', PStr ''null'')])]"

function convert_avro_type :: "pyval \<Rightarrow> pyval" where
  "convert_avro_type (PStr s) =
     (case map_of type_mapping s of
        Some v \<Rightarrow> v
      | None \<Rightarrow> PDict [(PStr ''type'', PStr ''string'')])"
| "convert_avro_type (PList ts) =
     (case filter (\<lambda>t. \<not> py_eq t (PStr ''null'')) ts of
        t # rest \<Rightarrow> convert_avro_type t
      | [] \<Rightarrow> PDict [(PStr ''type'', PStr ''null'')])"
| "convert_avro_type (PDict kvs) =
     (let avro_complex_type = dict_get kvs ''type'' PNone in
      if py_eq avro_complex_type (PStr ''enum'') then
        PDict [(PStr ''type'', PStr ''string''),
               (PStr ''enum'', dict_get kvs ''symbols'' (PList []))]
      else if py_eq avro_complex_type (PStr ''array'') then
        (let items_type = convert_avro_type (dict_get kvs ''items'' PNone) in
         PDict [(PStr ''type'', PStr ''array''), (PStr ''items'', items_type)])
      else if py_eq avro_complex_type (PStr ''record'') then
        PDict [(PStr ''type'', PStr ''object'')]
      else
        (case lookup kvs (PStr ''logicalType'') of
           Some logical \<Rightarrow>
             if py_eq logical (PStr ''timestamp-millis'')
                \<or> py_eq logical (PStr ''timestamp-micros'')
             then PDict [(PStr ''type'', PStr ''string''), (PStr ''format'', PStr ''date-time'')]
             else if py_eq logical (PStr ''date'')
             then PDict [(PStr ''type'', PStr ''string''), (PStr ''format'', PStr ''date'')]
             else PDict [(PStr ''type'', PStr ''string'')]
         | None \<Rightarrow> PDict [(PStr ''type'', PStr ''string'')]))"
| "convert_avro_type PNone = PDict [(PStr ''type'', PStr ''string'')]"
| "convert_avro_type (PBool b) = PDict [(PStr ''type'', PStr ''string'')]"
| "convert_avro_type (PInt i) = PDict [(PStr ''type'', PStr ''string'')]"
| "convert_avro_type (PFloat q) = PDict [(PStr ''type'', PStr ''string'')]"
  by pat_completeness auto
termination
proof (relation "measure size")
  show "wf (measure size)" by simp
next
  fix ts :: "pyval list" and t rest
  assume "filter (\<lambda>t. \<not> py_eq t (PStr ''null'')) ts = t # rest"
  then have "t \<in> set (filter (\<lambda>t. \<not> py_eq t (PStr ''null'')) ts)" by simp
  then have "t \<in> set ts" by simp
  then show "(t, PList ts) \<in> measure size"
    by (induction ts) auto
next
  fix kvs :: "(pyval \<times> pyval) list"
  have "lookup kvs k = Some v \<Longrightarrow> size v < size (PDict kvs)" for k v
    by (induction kvs) (auto split: if_splits)
  then show "(dict_get kvs ''items'' PNone, PDict kvs) \<in> measure size"
    by (auto simp add: dict_get_def split: option.splits)
qed

text \<open>The floats are the doubles that \<^verbatim>\<open>3.14\<close> and \<^verbatim>\<open>3.14159\<close> denote.\<close>

definition examples :: "(string \<times> pyval) list" where
  "examples =
     [(''string'', PStr ''example-string''),
      (''int'', PInt 42),
      (''long'', PInt 1234567890),
      (''float'', PFloat (7070651414971679 / 2251799813685248)),
      (''double'', PFloat (3537115888337719 / 1125899906842624)),
      (''boolean'', PBool True),
      (''bytes'', PStr ''base64-encoded-data''),
      (''null'', PNone)]"

function generate_example_value :: "pyval \<Rightarrow> exn + pyval" where
  "generate_example_value (PStr s) =
     Inr (case map_of examples s of Some v \<Rightarrow> v | None \<Rightarrow> PStr ''example'')"
| "generate_example_value (PList ts) =
     (case filter (\<lambda>t. \<not> py_eq t (PStr ''null'')) ts of
        t # rest \<Rightarrow> generate_example_value t
      | [] \<Rightarrow> Inr PNone)"
| "generate_example_value (PDict kvs) =
     (let avro_complex_type = dict_get kvs ''type'' PNone in
      if py_eq avro_complex_type (PStr ''enum'') then
        (let symbols = dict_get kvs ''symbols'' (PList []) in
         if truthy symbols then py_item0 symbols else Inr (PStr ''ENUM_VALUE''))
      else if py_eq avro_complex_type (PStr ''array'') then Inr (PList [])
      else if py_eq avro_complex_type (PStr ''record'') then Inr (PDict [])
      else
        (case lookup kvs (PStr ''logicalType'') of
           Some logical \<Rightarrow>
             if py_eq logical (PStr ''timestamp-millis'')
                \<or> py_eq logical (PStr ''timestamp-micros'')
             then Inr (PStr ''2024-01-01T12:00:00Z'')
             else if py_eq logical (PStr ''date'') then Inr (PStr ''2024-01-01'')
             else Inr (PStr ''example'')
         | None \<Rightarrow> Inr (PStr ''example'')))"
| "generate_example_value PNone = Inr (PStr ''example'')"
| "generate_example_value (PBool b) = Inr (PStr ''example'')"
| "generate_example_value (PInt i) = Inr (PStr ''example'')"
| "generate_example_value (PFloat q) = Inr (PStr ''example'')"
  by pat_completeness auto
termination
proof (relation "measure size")
  show "wf (measure size)" by simp
next
  fix ts :: "pyval list" and t rest
  assume "filter (\<lambda>t. \<not> py_eq t (PStr ''null'')) ts = t # rest"
  then have "t \<in> set (filter (\<lambda>t. \<not> py_eq t (PStr ''null'')) ts)" by simp
  then have "t \<in> set ts" by simp
  then show "(t, PList ts) \<in> measure size"
    by (induction ts) auto
qed

text \<open>
  The loop of \<^verbatim>\<open>avro_to_asyncapi_schema\<close> over the fields, with
  \<^verbatim>\<open>json_schema["properties"]\<close> and \<^verbatim>\<open>json_schema["required"]\<close> as built so far. The dict
  of a field is stored under its name once complete: nothing reads it in between.
\<close>

fun schema_fields ::
    "pyval list \<Rightarrow> (pyval \<times> pyval) list \<Rightarrow> pyval list \<Rightarrow>
     exn + ((pyval \<times> pyval) list \<times> pyval list)" where
  "schema_fields [] properties required = Inr (properties, required)"
| "schema_fields (field # rest) properties required =
     (case py_item field ''name'' of Inl e \<Rightarrow> Inl e | Inr field_name \<Rightarrow>
     (case py_item field ''type'' of Inl e \<Rightarrow> Inl e | Inr field_type \<Rightarrow>
     (case py_item (convert_avro_type field_type) ''type'' of Inl e \<Rightarrow> Inl e | Inr ty \<Rightarrow>
     (case py_get field ''doc'' (PStr []) of Inl e \<Rightarrow> Inl e | Inr doc \<Rightarrow>
      if \<not> hashable field_name then Inl TypeError
      else
     (case (case field_type of
              PDict ft \<Rightarrow>
                if py_eq (dict_get ft ''type'' PNone) (PStr ''enum'')
                then [(PStr ''type'', ty), (PStr ''description'', doc),
                      (PStr ''enum'', dict_get ft ''symbols'' (PList []))]
                else [(PStr ''type'', ty), (PStr ''description'', doc)]
            | _ \<Rightarrow> [(PStr ''type'', ty), (PStr ''description'', doc)]) of prop \<Rightarrow>
     (case py_in (PStr ''default'') field of Inl e \<Rightarrow> Inl e | Inr has_default \<Rightarrow>
      if has_default then
        (case py_item field ''default'' of Inl e \<Rightarrow> Inl e | Inr dflt \<Rightarrow>
           schema_fields rest
             (dict_set properties field_name (PDict (prop @ [(PStr ''default'', dflt)])))
             required)
      else
        schema_fields rest (dict_set properties field_name (PDict prop))
          (required @ [field_name])))))))"

text \<open>The \<^verbatim>\<open>try\<close> block of \<^verbatim>\<open>avro_to_asyncapi_schema\<close>. \<open>json_loads\<close> is \<^verbatim>\<open>json.loads\<close>:
  \<open>None\<close> where it raises. The \<^verbatim>\<open>except\<close> clause logs the exception and returns the
  generic node; the log line is left out.\<close>

definition avro_to_asyncapi_schema_try :: "(string \<Rightarrow> pyval option) \<Rightarrow> string \<Rightarrow> exn + pyval" where
  "avro_to_asyncapi_schema_try json_loads avro_schema_str =
     (case json_loads avro_schema_str of None \<Rightarrow> Inl JSONDecodeError | Some avro \<Rightarrow>
     (case py_get avro ''doc'' (PStr []) of Inl e \<Rightarrow> Inl e | Inr doc \<Rightarrow>
     (case py_get avro ''fields'' (PList []) of Inl e \<Rightarrow> Inl e | Inr fields \<Rightarrow>
     (case py_iter fields of Inl e \<Rightarrow> Inl e | Inr fs \<Rightarrow>
     (case schema_fields fs [] [] of Inl e \<Rightarrow> Inl e
      | Inr (properties, required) \<Rightarrow>
          Inr (PDict [(PStr ''type'', PStr ''object''),
                      (PStr ''description'', doc),
                      (PStr ''properties'', PDict properties),
                      (PStr ''required'', PList required)]))))))"

definition avro_to_asyncapi_schema :: "(string \<Rightarrow> pyval option) \<Rightarrow> string \<Rightarrow> pyval" where
  "avro_to_asyncapi_schema json_loads avro_schema_str =
     (case avro_to_asyncapi_schema_try json_loads avro_schema_str of
        Inr json_schema \<Rightarrow> json_schema
      | Inl e \<Rightarrow> PDict [(PStr ''type'', PStr ''object''),
                         (PStr ''description'', PStr ''Schema conversion error'')])"

text \<open>The loop of \<^verbatim>\<open>extract_message_examples\<close>.\<close>

fun example_fields :: "pyval list \<Rightarrow> (pyval \<times> pyval) list \<Rightarrow> exn + (pyval \<times> pyval) list" where
  "example_fields [] example = Inr example"
| "example_fields (field # rest) example =
     (case py_item field ''name'' of Inl e \<Rightarrow> Inl e | Inr field_name \<Rightarrow>
     (case py_item field ''type'' of Inl e \<Rightarrow> Inl e | Inr field_type \<Rightarrow>
     (case py_in (PStr ''default'') field of Inl e \<Rightarrow> Inl e | Inr has_default \<Rightarrow>
     (case (if has_default then py_item field ''default''
            else generate_example_value field_type) of
        Inl e \<Rightarrow> Inl e
      | Inr v \<Rightarrow>
          if \<not> hashable field_name then Inl TypeError
          else example_fields rest (dict_set example field_name v)))))"

definition extract_message_examples_try ::
    "(string \<Rightarrow> pyval option) \<Rightarrow> string \<Rightarrow> exn + pyval" where
  "extract_message_examples_try json_loads avro_schema_str =
     (case json_loads avro_schema_str of None \<Rightarrow> Inl JSONDecodeError | Some avro \<Rightarrow>
     (case py_get avro ''fields'' (PList []) of Inl e \<Rightarrow> Inl e | Inr fields \<Rightarrow>
     (case py_iter fields of Inl e \<Rightarrow> Inl e | Inr fs \<Rightarrow>
     (case example_fields fs [] of Inl e \<Rightarrow> Inl e | Inr example \<Rightarrow> Inr (PDict example)))))"

definition extract_message_examples :: "(string \<Rightarrow> pyval option) \<Rightarrow> string \<Rightarrow> pyval" where
  "extract_message_examples json_loads avro_schema_str =
     (case extract_message_examples_try json_loads avro_schema_str of
        Inr example \<Rightarrow> example
      | Inl e \<Rightarrow> PDict [])"

section \<open>The registry as seen through \<^verbatim>\<open>requests\<close>\<close>

text \<open>
  Every call goes to \<^verbatim>\<open>self.endpoint\<close> with the same credentials and timeout, so a request
  is its method and path; the subject is the value interpolated into the URL.
\<close>

datatype request =
    GetSubjects bool
  | GetVersions pyval
  | GetLatest pyval
  | GetConfig
  | GetSubjectConfig pyval
  | DeleteSubject pyval bool
  | DeleteVersion pyval pyval

record response =
  status_code :: nat
  body :: body

datatype outcome = Raises exn | Returns response

text \<open>
  The registry answers a request knowing every request made before it (so a delete can
  change a later listing). \<open>clock\<close> is \<^verbatim>\<open>datetime.now(timezone.utc).isoformat()\<close>.
\<close>

record registry =
  endpoint :: string
  respond :: "request list \<Rightarrow> request \<Rightarrow> outcome"
  clock :: "request list \<Rightarrow> string"

definition send :: "registry \<Rightarrow> request \<Rightarrow> request list \<Rightarrow> outcome \<times> request list" where
  "send reg req tr = (respond reg tr req, tr @ [req])"

text \<open>\<^verbatim>\<open>response.raise_for_status()\<close> raises for 4xx and 5xx.\<close>

definition raise_for_status :: "response \<Rightarrow> exn option" where
  "raise_for_status r =
     (if 400 \<le> status_code r \<and> status_code r < 600 then Some (HTTPError (status_code r))
      else None)"

definition response_json :: "response \<Rightarrow> exn + pyval" where
  "response_json r = (case body r of NotJson t \<Rightarrow> Inl JSONDecodeError | Json v \<Rightarrow> Inr v)"

section \<open>\<^verbatim>\<open>schema_checker.py\<close>: the health checker\<close>

datatype status = OK | WARNING | CRITICAL | ERROR

text \<open>The keys of a check result other than \<^verbatim>\<open>status\<close> and \<^verbatim>\<open>message\<close>. A size is kept
  as the length it is computed from: \<^verbatim>\<open>size_kb\<close> is \<^verbatim>\<open>round(n / 1024, 2)\<close>.\<close>

datatype detail =
    Count nat
  | Explosions "(pyval \<times> nat) list"
  | LargeSchemas "(pyval \<times> nat) list"
  | GlobalConfig pyval
  | NoneCompatCount nat
  | Subjects pyval
  | Orphaned "(pyval \<times> pyval) list"

record check_result =
  status :: status
  message :: fstring
  extras :: "detail list"

text \<open>\<^verbatim>\<open>self.issues\<close>, \<^verbatim>\<open>self.warnings\<close> and the requests made so far. What the checks
  print is left out.\<close>

record checker =
  trace :: "request list"
  issues :: "fstring list"
  warnings :: "fstring list"

definition error_result :: "exn \<Rightarrow> check_result" where
  "error_result e = \<lparr>status = ERROR, message = [E e], extras = []\<rparr>"

text \<open>\<^verbatim>\<open>requests.get(...)\<close> inside a check.\<close>

definition get :: "registry \<Rightarrow> request \<Rightarrow> checker \<Rightarrow> outcome \<times> checker" where
  "get reg req c = (case send reg req (trace c) of (out, tr) \<Rightarrow> (out, c\<lparr>trace := tr\<rparr>))"

definition check_subject_count :: "registry \<Rightarrow> checker \<Rightarrow> check_result \<times> checker" where
  "check_subject_count reg c0 =
     (case get reg (GetSubjects False) c0 of
        (Raises e, c) \<Rightarrow> (error_result e, c)
      | (Returns response, c) \<Rightarrow>
          (case raise_for_status response of
             Some e \<Rightarrow> (error_result e, c)
           | None \<Rightarrow>
              (case response_json response of
                 Inl e \<Rightarrow> (error_result e, c)
               | Inr subjects \<Rightarrow>
                  (case py_len subjects of
                     Inl e \<Rightarrow> (error_result e, c)
                   | Inr count \<Rightarrow>
                      (let message = [S ''Total subjects: '', N count] in
                       if count > 1000 then
                         (\<lparr>status = WARNING, message = message, extras = [Count count]\<rparr>,
                          c\<lparr>warnings := warnings c @ [[S ''High subject count: '', N count]]\<rparr>)
                       else if count > 5000 then
                         (\<lparr>status = CRITICAL, message = message, extras = [Count count]\<rparr>,
                          c\<lparr>issues := issues c @ [[S ''Very high subject count: '', N count]]\<rparr>)
                       else
                         (\<lparr>status = OK, message = message, extras = [Count count]\<rparr>, c))))))"

text \<open>\<^verbatim>\<open>requests.get(...)\<close> followed by \<^verbatim>\<open>.json()\<close> on the response, whatever its status.\<close>

definition get_json :: "registry \<Rightarrow> request \<Rightarrow> checker \<Rightarrow> (exn + pyval) \<times> checker" where
  "get_json reg req c0 =
     (case get reg req c0 of
        (Raises e, c) \<Rightarrow> (Inl e, c)
      | (Returns response, c) \<Rightarrow> (response_json response, c))"

text \<open>The elements of \<^verbatim>\<open>subjects[:sample_size]\<close>, where
  \<^verbatim>\<open>sample_size = min(len(subjects), limit)\<close>.\<close>

definition first_subjects :: "pyval \<Rightarrow> nat \<Rightarrow> exn + pyval list" where
  "first_subjects subjects limit =
     (case py_len subjects of
        Inl e \<Rightarrow> Inl e
      | Inr n \<Rightarrow>
         (case py_slice subjects (min n limit) of
            Inl e \<Rightarrow> Inl e
          | Inr sample \<Rightarrow> py_iter sample))"

definition check_connectivity :: "registry \<Rightarrow> checker \<Rightarrow> check_result \<times> checker" where
  "check_connectivity reg c0 =
     (case get reg (GetSubjects False) c0 of
        (out, c) \<Rightarrow>
          (case (case out of Raises e \<Rightarrow> Some e
                 | Returns response \<Rightarrow> raise_for_status response) of
             None \<Rightarrow>
               (\<lparr>status = OK, message = [S ''Schema Registry is reachable''], extras = []\<rparr>, c)
           | Some e \<Rightarrow>
               (let msg = (case e of
                             Timeout t \<Rightarrow> [S ''Connection timeout (>10s)'']
                           | ConnectionError t \<Rightarrow> [S ''Connection error: '', E e]
                           | _ \<Rightarrow> [E e])
                in (\<lparr>status = CRITICAL, message = msg, extras = []\<rparr>,
                    c\<lparr>issues := issues c @ [S ''Connectivity: '' # msg]\<rparr>))))"

text \<open>The loop of \<^verbatim>\<open>_check_version_explosion\<close>; an exception for one subject goes on to
  the next one.\<close>

fun version_explosion_loop ::
    "registry \<Rightarrow> pyval list \<Rightarrow> (pyval \<times> nat) list \<Rightarrow> checker \<Rightarrow>
     (pyval \<times> nat) list \<times> checker" where
  "version_explosion_loop reg [] explosions c = (explosions, c)"
| "version_explosion_loop reg (subject # rest) explosions c =
     (case get_json reg (GetVersions subject) c of
        (Inl e, c1) \<Rightarrow> version_explosion_loop reg rest explosions c1
      | (Inr vs, c1) \<Rightarrow>
         (case py_len vs of
            Inl e \<Rightarrow> version_explosion_loop reg rest explosions c1
          | Inr version_count \<Rightarrow>
              if version_count > 50 then
                (if version_count > 100 then
                   version_explosion_loop reg rest (explosions @ [(subject, version_count)])
                     (c1\<lparr>issues := issues c1 @
                         [[V subject, S '': '', N version_count, S '' versions'']]\<rparr>)
                 else
                   version_explosion_loop reg rest (explosions @ [(subject, version_count)])
                     (c1\<lparr>warnings := warnings c1 @
                         [[V subject, S '': '', N version_count, S '' versions'']]\<rparr>))
              else version_explosion_loop reg rest explosions c1))"

definition check_version_explosion :: "registry \<Rightarrow> checker \<Rightarrow> check_result \<times> checker" where
  "check_version_explosion reg c0 =
     (case get_json reg (GetSubjects False) c0 of
        (Inl e, c) \<Rightarrow> (error_result e, c)
      | (Inr subjects, c) \<Rightarrow>
         (case py_iter subjects of
            Inl e \<Rightarrow> (error_result e, c)
          | Inr elems \<Rightarrow>
             (case version_explosion_loop reg elems [] c of
                (explosions, c') \<Rightarrow>
                  if explosions \<noteq> [] then
                    (\<lparr>status = (if issues c' = [] then WARNING else CRITICAL),
                      message = [S ''Found '', N (length explosions),
                                 S '' subjects with >50 versions''],
                      extras = [Explosions explosions]\<rparr>, c')
                  else
                    (\<lparr>status = OK, message = [S ''No version explosions detected''],
                      extras = []\<rparr>, c'))))"

text \<open>The loop of \<^verbatim>\<open>_check_large_schemas\<close>. \<^verbatim>\<open>size_kb > 100\<close>, with
  \<^verbatim>\<open>size_kb = len(schema_str) / 1024\<close>, is \<open>n > 102400\<close> for the length \<open>n\<close>.\<close>

fun large_schemas_loop ::
    "registry \<Rightarrow> pyval list \<Rightarrow> (pyval \<times> nat) list \<Rightarrow> checker \<Rightarrow>
     (pyval \<times> nat) list \<times> checker" where
  "large_schemas_loop reg [] large_schemas c = (large_schemas, c)"
| "large_schemas_loop reg (subject # rest) large_schemas c =
     (case get_json reg (GetLatest subject) c of
        (Inl e, c1) \<Rightarrow> large_schemas_loop reg rest large_schemas c1
      | (Inr schema_data, c1) \<Rightarrow>
         (case py_get schema_data ''schema'' (PStr []) of
            Inl e \<Rightarrow> large_schemas_loop reg rest large_schemas c1
          | Inr schema_str \<Rightarrow>
             (case py_len schema_str of
                Inl e \<Rightarrow> large_schemas_loop reg rest large_schemas c1
              | Inr n \<Rightarrow>
                  if n > 102400 then
                    large_schemas_loop reg rest (large_schemas @ [(subject, n)])
                      (c1\<lparr>warnings := warnings c1 @ [[V subject, S '': '', KB2 n, S '' KB'']]\<rparr>)
                  else large_schemas_loop reg rest large_schemas c1)))"

definition check_large_schemas :: "registry \<Rightarrow> checker \<Rightarrow> check_result \<times> checker" where
  "check_large_schemas reg c0 =
     (case get_json reg (GetSubjects False) c0 of
        (Inl e, c) \<Rightarrow> (error_result e, c)
      | (Inr subjects, c) \<Rightarrow>
         (case first_subjects subjects 100 of
            Inl e \<Rightarrow> (error_result e, c)
          | Inr elems \<Rightarrow>
             (case large_schemas_loop reg elems [] c of
                (large_schemas, c') \<Rightarrow>
                  if large_schemas \<noteq> [] then
                    (\<lparr>status = WARNING,
                      message = [S ''Found '', N (length large_schemas),
                                 S '' large schemas (>100KB)''],
                      extras = [LargeSchemas large_schemas]\<rparr>, c')
                  else
                    (\<lparr>status = OK, message = [S ''No unusually large schemas''],
                      extras = []\<rparr>, c'))))"

text \<open>The loop of \<^verbatim>\<open>_check_compatibility_config\<close>.\<close>

fun none_compat_loop ::
    "registry \<Rightarrow> pyval list \<Rightarrow> pyval list \<Rightarrow> checker \<Rightarrow> pyval list \<times> checker" where
  "none_compat_loop reg [] none_compat c = (none_compat, c)"
| "none_compat_loop reg (subject # rest) none_compat c =
     (case get reg (GetSubjectConfig subject) c of
        (Raises e, c1) \<Rightarrow> none_compat_loop reg rest none_compat c1
      | (Returns config_resp, c1) \<Rightarrow>
          if status_code config_resp = 200 then
            (case response_json config_resp of
               Inl e \<Rightarrow> none_compat_loop reg rest none_compat c1
             | Inr config \<Rightarrow>
                (case py_get config ''compatibilityLevel'' PNone of
                   Inl e \<Rightarrow> none_compat_loop reg rest none_compat c1
                 | Inr level \<Rightarrow>
                     if py_eq level (PStr ''NONE'')
                     then none_compat_loop reg rest (none_compat @ [subject]) c1
                     else none_compat_loop reg rest none_compat c1))
          else none_compat_loop reg rest none_compat c1)"

definition check_compatibility_config :: "registry \<Rightarrow> checker \<Rightarrow> check_result \<times> checker" where
  "check_compatibility_config reg c0 =
     (case get_json reg GetConfig c0 of
        (Inl e, c1) \<Rightarrow> (error_result e, c1)
      | (Inr global_config, c1) \<Rightarrow>
     (case get_json reg (GetSubjects False) c1 of
        (Inl e, c2) \<Rightarrow> (error_result e, c2)
      | (Inr subjects, c2) \<Rightarrow>
     (case first_subjects subjects 50 of
        Inl e \<Rightarrow> (error_result e, c2)
      | Inr elems \<Rightarrow>
     (case none_compat_loop reg elems [] c2 of
        (none_compat, c3) \<Rightarrow>
          if none_compat \<noteq> [] then
            (\<lparr>status = WARNING,
              message = [N (length none_compat), S '' subjects with NONE compatibility''],
              extras = [GlobalConfig global_config, NoneCompatCount (length none_compat)]\<rparr>,
             c3\<lparr>warnings := warnings c3 @
                 [[N (length none_compat), S '' subjects with NONE compatibility'']]\<rparr>)
          else
            (\<lparr>status = OK, message = [S ''Compatibility configs look good''],
              extras = [GlobalConfig global_config]\<rparr>, c3)))))"

text \<open>In \<^verbatim>\<open>_check_soft_deleted\<close> the warning is appended before the result dict, with its
  \<^verbatim>\<open>deleted[:10]\<close>, is built.\<close>

definition check_soft_deleted :: "registry \<Rightarrow> checker \<Rightarrow> check_result \<times> checker" where
  "check_soft_deleted reg c0 =
     (case get_json reg (GetSubjects True) c0 of
        (Inl e, c) \<Rightarrow> (error_result e, c)
      | (Inr deleted, c) \<Rightarrow>
         (case py_len deleted of
            Inl e \<Rightarrow> (error_result e, c)
          | Inr count \<Rightarrow>
              if count > 0 then
                (let c' = c\<lparr>warnings := warnings c @ [[N count, S '' soft-deleted subjects'']]\<rparr>
                 in case py_slice deleted 10 of
                      Inl e \<Rightarrow> (error_result e, c')
                    | Inr first10 \<Rightarrow>
                        (\<lparr>status = WARNING,
                          message = [N count, S '' subjects in soft-delete state''],
                          extras = [Count count, Subjects first10]\<rparr>, c'))
              else
                (\<lparr>status = OK, message = [S ''No soft-deleted subjects''], extras = []\<rparr>, c)))"

text \<open>The arrow of the message of a broken reference (U+2192, in UTF-8).\<close>

definition arrow :: string where
  "arrow = [CHR 0xE2, CHR 0x86, CHR 0x92]"

text \<open>The loop over the references of one subject in \<^verbatim>\<open>_check_orphaned_references\<close>: an
  exception ends it and goes on to the next subject, keeping what was recorded.\<close>

fun references_loop ::
    "registry \<Rightarrow> pyval \<Rightarrow> pyval list \<Rightarrow> (pyval \<times> pyval) list \<Rightarrow> checker \<Rightarrow>
     (pyval \<times> pyval) list \<times> checker" where
  "references_loop reg subject [] orphaned c = (orphaned, c)"
| "references_loop reg subject (reference # rest) orphaned c =
     (case py_item reference ''subject'' of
        Inl e \<Rightarrow> (orphaned, c)
      | Inr ref_subject \<Rightarrow>
         (case get reg (GetVersions ref_subject) c of
            (Raises e, c1) \<Rightarrow> (orphaned, c1)
          | (Returns check_resp, c1) \<Rightarrow>
              if status_code check_resp = 404 then
                references_loop reg subject rest (orphaned @ [(subject, ref_subject)])
                  (c1\<lparr>issues := issues c1 @
                      [[V subject, S ('' '' @ arrow @ '' ''), V ref_subject,
                        S '' (missing)'']]\<rparr>)
              else references_loop reg subject rest orphaned c1))"

fun orphaned_loop ::
    "registry \<Rightarrow> pyval list \<Rightarrow> (pyval \<times> pyval) list \<Rightarrow> checker \<Rightarrow>
     (pyval \<times> pyval) list \<times> checker" where
  "orphaned_loop reg [] orphaned c = (orphaned, c)"
| "orphaned_loop reg (subject # rest) orphaned c =
     (case get_json reg (GetLatest subject) c of
        (Inl e, c1) \<Rightarrow> orphaned_loop reg rest orphaned c1
      | (Inr schema_data, c1) \<Rightarrow>
         (case py_get schema_data ''references'' (PList []) of
            Inl e \<Rightarrow> orphaned_loop reg rest orphaned c1
          | Inr references \<Rightarrow>
             (case py_iter references of
                Inl e \<Rightarrow> orphaned_loop reg rest orphaned c1
              | Inr refs \<Rightarrow>
                 (case references_loop reg subject refs orphaned c1 of
                    (orphaned', c2) \<Rightarrow> orphaned_loop reg rest orphaned' c2))))"

definition check_orphaned_references :: "registry \<Rightarrow> checker \<Rightarrow> check_result \<times> checker" where
  "check_orphaned_references reg c0 =
     (case get_json reg (GetSubjects False) c0 of
        (Inl e, c) \<Rightarrow> (error_result e, c)
      | (Inr subjects, c) \<Rightarrow>
         (case first_subjects subjects 50 of
            Inl e \<Rightarrow> (error_result e, c)
          | Inr elems \<Rightarrow>
             (case orphaned_loop reg elems [] c of
                (orphaned, c') \<Rightarrow>
                  if orphaned \<noteq> [] then
                    (\<lparr>status = CRITICAL,
                      message = [S ''Found '', N (length orphaned), S '' broken references''],
                      extras = [Orphaned orphaned]\<rparr>, c')
                  else
                    (\<lparr>status = OK, message = [S ''No orphaned references''],
                      extras = []\<rparr>, c'))))"

text \<open>\<^verbatim>\<open>results["summary"]\<close> and the report of \<^verbatim>\<open>check_all\<close>.\<close>

record summary =
  total_issues :: nat
  total_warnings :: nat
  summary_issues :: "fstring list"
  summary_warnings :: "fstring list"
  summary_status :: status

record report =
  report_timestamp :: string
  report_endpoint :: string
  checks :: "(string \<times> check_result) list"
  summary :: summary

definition check_all :: "registry \<Rightarrow> checker \<Rightarrow> report \<times> checker" where
  "check_all reg c0 =
     (case check_connectivity reg c0 of (connectivity, c1) \<Rightarrow>
     (case check_subject_count reg c1 of (subject_count, c2) \<Rightarrow>
     (case check_version_explosion reg c2 of (version_explosion, c3) \<Rightarrow>
     (case check_large_schemas reg c3 of (large_schemas, c4) \<Rightarrow>
     (case check_compatibility_config reg c4 of (compatibility, c5) \<Rightarrow>
     (case check_soft_deleted reg c5 of (soft_deleted, c6) \<Rightarrow>
     (case check_orphaned_references reg c6 of (orphaned_refs, c7) \<Rightarrow>
        (\<lparr>report_timestamp = clock reg (trace c0),
          report_endpoint = endpoint reg,
          checks = [(''connectivity'', connectivity),
                    (''subject_count'', subject_count),
                    (''version_explosion'', version_explosion),
                    (''large_schemas'', large_schemas),
                    (''compatibility'', compatibility),
                    (''soft_deleted'', soft_deleted),
                    (''orphaned_refs'', orphaned_refs)],
          summary = \<lparr>total_issues = length (issues c7),
                      total_warnings = length (warnings c7),
                      summary_issues = issues c7,
                      summary_warnings = warnings c7,
                      summary_status =
                        (if issues c7 \<noteq> [] then CRITICAL
                         else if warnings c7 \<noteq> [] then WARNING else OK)\<rparr>\<rparr>,
         c7))))))))"

section \<open>\<^verbatim>\<open>schema_purger.py\<close>: deletions\<close>

text \<open>The purger keeps no state of its own; each method takes the requests made so far and
  returns them extended.\<close>

definition get_all_subjects ::
    "registry \<Rightarrow> bool \<Rightarrow> request list \<Rightarrow> (exn + pyval) \<times> request list" where
  "get_all_subjects reg include_deleted tr0 =
     (let failed = (\<lambda>e. Inl (Exception [S ''Failed to get subjects: '', E e])) in
      case send reg (GetSubjects include_deleted) tr0 of
        (Raises e, tr) \<Rightarrow> (failed e, tr)
      | (Returns response, tr) \<Rightarrow>
          (case raise_for_status response of
             Some e \<Rightarrow> (failed e, tr)
           | None \<Rightarrow>
              (case response_json response of
                 Inl e \<Rightarrow> (failed e, tr)
               | Inr subjects \<Rightarrow> (Inr subjects, tr))))"

text \<open>The dict \<^verbatim>\<open>get_subject_details\<close> returns: the full one, or the one with
  \<^verbatim>\<open>"error"\<close>. \<open>d_schema_len\<close> stands for \<^verbatim>\<open>size_kb = round(len(schema_str) / 1024, 2)\<close>.\<close>

datatype details =
    Details (d_subject: pyval) (d_versions: pyval) (d_version_count: nat)
      (d_latest_version: pyval) (d_schema_type: pyval) (d_schema_len: nat) (d_id: pyval)
  | DetailsError (d_subject: pyval) (d_error: fstring)

definition get_subject_details ::
    "registry \<Rightarrow> pyval \<Rightarrow> request list \<Rightarrow> details \<times> request list" where
  "get_subject_details reg subject tr0 =
     (case send reg (GetVersions subject) tr0 of
        (Raises e, tr1) \<Rightarrow> (DetailsError subject [E e], tr1)
      | (Returns versions_resp, tr1) \<Rightarrow>
     (case (if status_code versions_resp = 200 then response_json versions_resp
            else Inr (PList [])) of
        Inl e \<Rightarrow> (DetailsError subject [E e], tr1)
      | Inr versions \<Rightarrow>
     (case send reg (GetLatest subject) tr1 of
        (Raises e, tr2) \<Rightarrow> (DetailsError subject [E e], tr2)
      | (Returns latest_resp, tr2) \<Rightarrow>
     (case (if status_code latest_resp = 200 then response_json latest_resp
            else Inr (PDict [])) of
        Inl e \<Rightarrow> (DetailsError subject [E e], tr2)
      | Inr latest \<Rightarrow>
     (case py_get latest ''schema'' (PStr []) of
        Inl e \<Rightarrow> (DetailsError subject [E e], tr2)
      | Inr schema_str \<Rightarrow>
     (case py_len schema_str of
        Inl e \<Rightarrow> (DetailsError subject [E e], tr2)
      | Inr size_len \<Rightarrow>
     (case py_len versions of
        Inl e \<Rightarrow> (DetailsError subject [E e], tr2)
      | Inr count \<Rightarrow>
     (case py_get latest ''version'' PNone of
        Inl e \<Rightarrow> (DetailsError subject [E e], tr2)
      | Inr version \<Rightarrow>
     (case py_get latest ''schemaType'' (PStr ''AVRO'') of
        Inl e \<Rightarrow> (DetailsError subject [E e], tr2)
      | Inr stype \<Rightarrow>
     (case py_get latest ''id'' PNone of
        Inl e \<Rightarrow> (DetailsError subject [E e], tr2)
      | Inr ident \<Rightarrow>
          (Details subject versions count version stype size_len ident, tr2)))))))))))"

text \<open>The dict of one deletion: \<^verbatim>\<open>{"success": True, "subject", "deleted_versions",
  "message"}\<close> or \<^verbatim>\<open>{"success": False, "subject", "error"}\<close>.\<close>

datatype delete_result =
    Success (r_subject: pyval) (deleted_versions: pyval) (r_message: fstring)
  | Failure (r_subject: pyval) (r_error: fstring)

fun success :: "delete_result \<Rightarrow> bool" where
  "success (Success subject vs msg) = True"
| "success (Failure subject err) = False"

text \<open>What both deletions do with the response of their last \<^verbatim>\<open>DELETE\<close>.\<close>

definition deletion_result :: "string \<Rightarrow> pyval \<Rightarrow> response \<Rightarrow> delete_result" where
  "deletion_result verb subject response =
     (if status_code response = 200 then
        (case response_json response of
           Inl e \<Rightarrow> Failure subject [E e]
         | Inr vs \<Rightarrow>
            (case py_len vs of
               Inl e \<Rightarrow> Failure subject [E e]
             | Inr n \<Rightarrow> Success subject vs [S verb, N n, S '' versions'']))
      else Failure subject [S ''HTTP '', N (status_code response), S '': '', T (body response)])"


definition hard_delete_subject ::
    "registry \<Rightarrow> pyval \<Rightarrow> request list \<Rightarrow> delete_result \<times> request list" where
  "hard_delete_subject reg subject tr0 =
     (case send reg (DeleteSubject subject False) tr0 of
        (Raises e, tr1) \<Rightarrow> (Failure subject [E e], tr1)
      | (Returns soft_delete_resp, tr1) \<Rightarrow>
          (case send reg (DeleteSubject subject True) tr1 of
             (Raises e, tr2) \<Rightarrow> (Failure subject [E e], tr2)
           | (Returns response, tr2) \<Rightarrow>
               (deletion_result ''Permanently deleted '' subject response, tr2)))"

record bulk_result =
  total :: nat
  successful :: "delete_result list"
  failed :: "delete_result list"
  timestamp :: string
  success_count :: nat
  failure_count :: nat

text \<open>The loop of both bulk methods, over the deletion it calls.\<close>

fun delete_each ::
    "(pyval \<Rightarrow> request list \<Rightarrow> delete_result \<times> request list) \<Rightarrow> pyval list \<Rightarrow>
     delete_result list \<Rightarrow> delete_result list \<Rightarrow> request list \<Rightarrow>
     delete_result list \<times> delete_result list \<times> request list" where
  "delete_each del [] succ fails tr = (succ, fails, tr)"
| "delete_each del (subject # rest) succ fails tr =
     (case del subject tr of
        (result, tr') \<Rightarrow>
          if success result then delete_each del rest (succ @ [result]) fails tr'
          else delete_each del rest succ (fails @ [result]) tr')"

definition bulk_delete ::
    "(pyval \<Rightarrow> request list \<Rightarrow> delete_result \<times> request list) \<Rightarrow> registry \<Rightarrow>
     pyval list \<Rightarrow> request list \<Rightarrow> bulk_result \<times> request list" where
  "bulk_delete del reg subjects tr0 =
     (case delete_each del subjects [] [] tr0 of
        (succ, fails, tr) \<Rightarrow>
          (\<lparr>total = length subjects, successful = succ, failed = fails,
            timestamp = clock reg tr0,
            success_count = length succ, failure_count = length fails\<rparr>, tr))"


definition bulk_hard_delete ::
    "registry \<Rightarrow> pyval list \<Rightarrow> request list \<Rightarrow> bulk_result \<times> request list" where
  "bulk_hard_delete reg subjects tr0 = bulk_delete (hard_delete_subject reg) reg subjects tr0"

text \<open>\<^verbatim>\<open>[s for s in soft_deleted if s not in active]\<close>, given the elements of
  \<^verbatim>\<open>soft_deleted\<close>.\<close>

fun not_in_active :: "pyval list \<Rightarrow> pyval \<Rightarrow> exn + pyval list" where
  "not_in_active [] active = Inr []"
| "not_in_active (s # rest) active =
     (case py_in s active of
        Inl e \<Rightarrow> Inl e
      | Inr found \<Rightarrow>
         (case not_in_active rest active of
            Inl e \<Rightarrow> Inl e
          | Inr kept \<Rightarrow> Inr (if found then kept else s # kept)))"

text \<open>What \<^verbatim>\<open>purge_soft_deleted\<close> returns: \<^verbatim>\<open>{"success": True, "message", "count"}\<close>,
  the dict of \<^verbatim>\<open>bulk_hard_delete\<close>, or \<^verbatim>\<open>{"success": False, "error"}\<close>.\<close>

datatype purge_result =
    NothingToPurge fstring nat
  | Purged bulk_result
  | PurgeFailed fstring

definition purge_soft_deleted :: "registry \<Rightarrow> request list \<Rightarrow> purge_result \<times> request list" where
  "purge_soft_deleted reg tr0 =
     (case get_all_subjects reg True tr0 of
        (Inl e, tr1) \<Rightarrow> (PurgeFailed [E e], tr1)
      | (Inr soft_deleted, tr1) \<Rightarrow>
     (case get_all_subjects reg False tr1 of
        (Inl e, tr2) \<Rightarrow> (PurgeFailed [E e], tr2)
      | (Inr active, tr2) \<Rightarrow>
     (case py_iter soft_deleted of
        Inl e \<Rightarrow> (PurgeFailed [E e], tr2)
      | Inr elems \<Rightarrow>
     (case not_in_active elems active of
        Inl e \<Rightarrow> (PurgeFailed [E e], tr2)
      | Inr deleted_subjects \<Rightarrow>
          if deleted_subjects = [] then
            (NothingToPurge [S ''No soft-deleted subjects found''] 0, tr2)
          else
            (case bulk_hard_delete reg deleted_subjects tr2 of
               (res, tr3) \<Rightarrow> (Purged res, tr3))))))"

text \<open>\<^verbatim>\<open>details.get("version_count", 0)\<close>\<close>

fun version_count_or_0 :: "details \<Rightarrow> nat" where
  "version_count_or_0 (Details subject vs n v t l i) = n"
| "version_count_or_0 (DetailsError subject err) = 0"

text \<open>The loop of \<^verbatim>\<open>get_subjects_by_filter\<close>; \<open>filtered\<close> is the list built so far.\<close>

fun filter_loop ::
    "registry \<Rightarrow> int option \<Rightarrow> string option \<Rightarrow> pyval list \<Rightarrow> pyval list \<Rightarrow>
     request list \<Rightarrow> (exn + pyval list) \<times> request list" where
  "filter_loop reg min_versions pattern [] filtered tr = (Inr filtered, tr)"
| "filter_loop reg min_versions pattern (subject # rest) filtered tr =
     (case (case min_versions of
              None \<Rightarrow> (True, tr)
            | Some m \<Rightarrow>
               (case get_subject_details reg subject tr of
                  (details, tr') \<Rightarrow>
                    (if int (version_count_or_0 details) < m then False else True, tr'))) of
        (include, tr1) \<Rightarrow>
     (case (case pattern of
              None \<Rightarrow> Inr include
            | Some p \<Rightarrow>
               if p \<noteq> [] then
                 (case py_in (PStr p) subject of
                    Inl e \<Rightarrow> Inl e
                  | Inr found \<Rightarrow> Inr (if \<not> found then False else include))
               else Inr include) of
        Inl e \<Rightarrow> (Inl e, tr1)
      | Inr include \<Rightarrow>
          filter_loop reg min_versions pattern rest
            (if include then filtered @ [subject] else filtered) tr1))"

definition get_subjects_by_filter ::
    "registry \<Rightarrow> int option \<Rightarrow> string option \<Rightarrow> request list \<Rightarrow>
     (exn + pyval list) \<times> request list" where
  "get_subjects_by_filter reg min_versions pattern tr0 =
     (let failed = (\<lambda>e. Inl (Exception [S ''Failed to filter subjects: '', E e])) in
      case get_all_subjects reg False tr0 of
        (Inl e, tr1) \<Rightarrow> (failed e, tr1)
      | (Inr all_subjects, tr1) \<Rightarrow>
          (case py_iter all_subjects of
             Inl e \<Rightarrow> (failed e, tr1)
           | Inr elems \<Rightarrow>
              (case filter_loop reg min_versions pattern elems [] tr1 of
                 (Inl e, tr2) \<Rightarrow> (failed e, tr2)
               | (Inr filtered, tr2) \<Rightarrow> (Inr filtered, tr2))))"


section \<open>Registries and inputs used as examples\<close>

text \<open>A registry that lists 5001 subjects.\<close>

definition crowded_registry :: registry where
  "crowded_registry =
     \<lparr>endpoint = ''https://registry.example'',
      respond = (\<lambda>tr req. Returns \<lparr>status_code = 200,
         body = Json (PList (map (\<lambda>i. PStr (replicate i CHR ''s'')) [1..<5002]))\<rparr>),
      clock = (\<lambda>tr. ''2024-01-01T12:00:00+00:00'')\<rparr>"

text \<open>
  A small registry. \<^verbatim>\<open>legacy-value\<close> is soft-deleted already; reading the versions of
  \<^verbatim>\<open>audit-log\<close> times out; a subject can be deleted for good only after a soft deletion.
\<close>

definition shop_versions :: "string \<Rightarrow> int list" where
  "shop_versions name =
     (if name = ''orders-value'' then [1, 2, 3, 4, 5]
      else if name = ''orders-key'' then [1, 2]
      else if name = ''users-value'' then [1, 2, 3, 4, 5]
      else if name = ''audit-log'' then [1]
      else if name = ''legacy-value'' then [1, 2, 3]
      else [])"

definition ok_response :: "pyval \<Rightarrow> outcome" where
  "ok_response v = Returns \<lparr>status_code = 200, body = Json v\<rparr>"

definition error_response :: "nat \<Rightarrow> int \<Rightarrow> string \<Rightarrow> outcome" where
  "error_response code error_code msg =
     Returns \<lparr>status_code = code,
              body = Json (PDict [(PStr ''error_code'', PInt error_code),
                                  (PStr ''message'', PStr msg)])\<rparr>"

fun shop_respond :: "request list \<Rightarrow> request \<Rightarrow> outcome" where
  "shop_respond tr (GetSubjects deleted) =
     ok_response (PList (map PStr
       ([''orders-value'', ''orders-key'', ''users-value'', ''audit-log'']
        @ (if deleted then [''legacy-value''] else []))))"
| "shop_respond tr (GetVersions (PStr name)) =
     (if name = ''audit-log'' then Raises (Timeout ''Read timed out.'')
      else if shop_versions name = [] \<or> name = ''legacy-value''
      then error_response 404 40401 ''Subject not found.''
      else ok_response (PList (map PInt (shop_versions name))))"
| "shop_respond tr (GetLatest (PStr name)) =
     (if shop_versions name = [] \<or> name = ''legacy-value''
      then error_response 404 40401 ''Subject not found.''
      else ok_response (PDict
        [(PStr ''subject'', PStr name),
         (PStr ''version'', PInt (last (shop_versions name))),
         (PStr ''id'', PInt 100001),
         (PStr ''schema'', PStr (CHR 0x22 # ''string'' @ [CHR 0x22]))]))"
| "shop_respond tr (DeleteSubject (PStr name) permanent) =
     (if shop_versions name = [] then error_response 404 40401 ''Subject not found.''
      else if \<not> permanent then
        (if name = ''legacy-value''
         then error_response 404 40404 ''Subject was soft deleted.''
         else ok_response (PList (map PInt (shop_versions name))))
      else if name = ''legacy-value'' \<or> DeleteSubject (PStr name) False \<in> set tr
      then ok_response (PList (map PInt (shop_versions name)))
      else error_response 404 40405 ''Subject was not deleted first.'')"
| "shop_respond tr req = error_response 404 40401 ''Subject not found.''"

definition shop :: registry where
  "shop = \<lparr>endpoint = ''https://registry.example'', respond = shop_respond,
           clock = (\<lambda>tr. ''2024-01-01T12:00:00+00:00'')\<rparr>"

text \<open>A registry whose soft deletions time out, and which would accept any permanent one.\<close>

fun flaky_respond :: "request list \<Rightarrow> request \<Rightarrow> outcome" where
  "flaky_respond tr (DeleteSubject s permanent) =
     (if permanent then ok_response (PList [PInt 1, PInt 2])
      else Raises (Timeout ''Read timed out.''))"
| "flaky_respond tr req = error_response 404 40401 ''Subject not found.''"

definition flaky :: registry where
  "flaky = \<lparr>endpoint = ''https://registry.example'', respond = flaky_respond,
            clock = (\<lambda>tr. ''2024-01-01T12:00:00+00:00'')\<rparr>"

text \<open>
  An Avro record with one field without a default and four with one: \<^verbatim>\<open>0\<close>, \<^verbatim>\<open>false\<close>,
  the empty string, and a default on an enum whose symbols are not a list, for which no
  example can be generated. \<open>example_loads\<close> is \<^verbatim>\<open>json.loads\<close> on this text, on
  \<^verbatim>\<open>[1, 2]\<close> and on \<^verbatim>\<open>not json\<close>, the three texts that the examples parse.
\<close>

definition user_schema_text :: string where
  "user_schema_text =
     ''{\"type\": \"record\", \"name\": \"User\", \"doc\": \"A user\", \"fields\": ['' @
     ''{\"name\": \"id\", \"type\": \"long\"}, '' @
     ''{\"name\": \"retries\", \"type\": \"int\", \"default\": 0}, '' @
     ''{\"name\": \"active\", \"type\": \"boolean\", \"default\": false}, '' @
     ''{\"name\": \"note\", \"type\": \"string\", \"default\": \"\"}, '' @
     ''{\"name\": \"tier\", \"type\": {\"type\": \"enum\", \"name\": \"Tier\", '' @
     ''\"symbols\": 7}, \"default\": \"FREE\"}]}''"

definition user_fields :: "(pyval \<times> pyval) list list" where
  "user_fields =
     [[(PStr ''name'', PStr ''id''), (PStr ''type'', PStr ''long'')],
      [(PStr ''name'', PStr ''retries''), (PStr ''type'', PStr ''int''),
       (PStr ''default'', PInt 0)],
      [(PStr ''name'', PStr ''active''), (PStr ''type'', PStr ''boolean''),
       (PStr ''default'', PBool False)],
      [(PStr ''name'', PStr ''note''), (PStr ''type'', PStr ''string''),
       (PStr ''default'', PStr [])],
      [(PStr ''name'', PStr ''tier''),
       (PStr ''type'', PDict [(PStr ''type'', PStr ''enum''), (PStr ''name'', PStr ''Tier''),
                              (PStr ''symbols'', PInt 7)]),
       (PStr ''default'', PStr ''FREE'')]]"

definition user_schema :: "(pyval \<times> pyval) list" where
  "user_schema =
     [(PStr ''type'', PStr ''record''), (PStr ''name'', PStr ''User''),
      (PStr ''doc'', PStr ''A user''), (PStr ''fields'', PList (map PDict user_fields))]"

definition example_loads :: "string \<Rightarrow> pyval option" where
  "example_loads text =
     (if text = user_schema_text then Some (PDict user_schema)
      else if text = ''[1, 2]'' then Some (PList [PInt 1, PInt 2])
      else None)"

text \<open>A proxy that answers every request with a sign-in page, and a registry that is down.\<close>

definition portal :: registry where
  "portal = \<lparr>endpoint = ''https://registry.example'',
             respond = (\<lambda>tr req. Returns \<lparr>status_code = 200,
                                              body = NotJson ''<html>Sign in</html>''\<rparr>),
             clock = (\<lambda>tr. ''2024-01-01T12:00:00+00:00'')\<rparr>"

definition down :: registry where
  "down = \<lparr>endpoint = ''https://registry.example'',
           respond = (\<lambda>tr req. Raises (Timeout ''Read timed out.'')),
           clock = (\<lambda>tr. ''2024-01-01T12:00:00+00:00'')\<rparr>"

text \<open>A checker that has run no check yet.\<close>

definition new_checker :: checker where
  "new_checker = \<lparr>trace = [], issues = [], warnings = []\<rparr>"

section \<open>Translating Avro types\<close>

lemma atom_eq_str: "atom_eq t (PStr s) = (t = PStr s)"
  by (cases t) (auto split: option.splits)

text \<open>
  Claim C4. For a union (a list of Avro types), \<^verbatim>\<open>_convert_avro_type\<close> and
  \<^verbatim>\<open>_generate_example_value\<close> leave out the members equal to \<^verbatim>\<open>"null"\<close> and give what
  they give for the first member that remains; so \<^verbatim>\<open>["null", "string"]\<close> is translated as
  \<^verbatim>\<open>"string"\<close> is. A union with \<^verbatim>\<open>"null"\<close> members only gives the node of type
  \<^verbatim>\<open>null\<close> and the example \<^verbatim>\<open>None\<close>.
\<close>

theorem union_translation:
  "(filter (\<lambda>t. t \<noteq> PStr ''null'') ts = t # rest \<longrightarrow>
      convert_avro_type (PList ts) = convert_avro_type t
      \<and> generate_example_value (PList ts) = generate_example_value t)
   \<and> ((\<forall>t \<in> set ts. t = PStr ''null'') \<longrightarrow>
      convert_avro_type (PList ts) = PDict [(PStr ''type'', PStr ''null'')]
      \<and> generate_example_value (PList ts) = Inr PNone)
   \<and> convert_avro_type (PList [PStr ''null'', PStr ''string''])
       = convert_avro_type (PStr ''string'')
   \<and> generate_example_value (PList [PStr ''null'', PStr ''string''])
       = generate_example_value (PStr ''string'')"
proof -
  have "filter (\<lambda>t. t \<noteq> PStr ''null'') ts = []" if "\<forall>t \<in> set ts. t = PStr ''null''"
    using that by (induction ts) auto
  then show ?thesis
    by (auto simp add: atom_eq_str)
qed

theorem union_translation_witness:
  "convert_avro_type (PList [PStr ''null'', PStr ''long'', PStr ''string''])
     = PDict [(PStr ''type'', PStr ''integer''), (PStr ''format'', PStr ''int64'')]
   \<and> generate_example_value (PList [PStr ''null'', PStr ''long'', PStr ''string''])
     = Inr (PInt 1234567890)
   \<and> convert_avro_type (PList [PStr ''null'', PStr ''null''])
     = PDict [(PStr ''type'', PStr ''null'')]
   \<and> generate_example_value (PList [PStr ''null'', PStr ''null'']) = Inr PNone"
  using union_translation [of "[PStr ''null'', PStr ''long'', PStr ''string'']"
      "PStr ''long''" "[PStr ''string'']"]
    union_translation [of "[PStr ''null'', PStr ''null'']"]
  by (simp add: type_mapping_def examples_def)

section \<open>Defaults of record fields\<close>

lemma convert_has_type: "\<exists>v. py_item (convert_avro_type t) ''type'' = Inr v"
proof (induction t rule: convert_avro_type.induct)
  case (1 s)
  then show ?case
    by (simp add: type_mapping_def)
next
  case (2 ts)
  then show ?case
    by (cases "filter (\<lambda>t. \<not> py_eq t (PStr ''null'')) ts") simp_all
next
  case (3 kvs)
  then show ?case
    by (simp add: Let_def split: option.splits)
qed simp_all

lemma schema_fields_required:
  assumes "\<forall>kvs \<in> set fds. lookup kvs (PStr ''name'') = Some (PStr (nm kvs))
             \<and> lookup kvs (PStr ''type'') \<noteq> None"
  shows "map_sum (\<lambda>e. e) snd (schema_fields (map PDict fds) properties required) =
     Inr (required @ map (\<lambda>kvs. PStr (nm kvs))
            (filter (\<lambda>kvs. lookup kvs (PStr ''default'') = None) fds))"
  using assms
proof (induction fds arbitrary: properties required)
  case Nil
  then show ?case by simp
next
  case (Cons kvs fds)
  from Cons.prems obtain ty where
    n: "lookup kvs (PStr ''name'') = Some (PStr (nm kvs))" and
    t: "lookup kvs (PStr ''type'') = Some ty" by auto
  obtain v where v: "py_item (convert_avro_type ty) ''type'' = Inr v"
    using convert_has_type by blast
  have rest: "\<forall>kvs \<in> set fds. lookup kvs (PStr ''name'') = Some (PStr (nm kvs))
             \<and> lookup kvs (PStr ''type'') \<noteq> None" using Cons.prems by simp
  note IH = Cons.IH[OF rest]
  show ?case
    by (cases "lookup kvs (PStr ''default'')") (simp_all add: n t v IH)
qed

lemma dict_set_fresh:
  "\<forall>k \<in> fst ` set d. \<exists>a. k = PStr a \<and> a \<noteq> n \<Longrightarrow> dict_set d (PStr n) v = d @ [(PStr n, v)]"
  by (induction d) auto

lemma example_fields_map:
  assumes "\<forall>kvs \<in> set fds. lookup kvs (PStr ''name'') = Some (PStr (nm kvs))
             \<and> lookup kvs (PStr ''type'') \<noteq> None"
    and "\<forall>kvs \<in> set fds. lookup kvs (PStr ''default'') = None \<longrightarrow>
            generate_example_value (dict_get kvs ''type'' PNone) = Inr (ex kvs)"
    and "distinct (map nm fds)"
    and "\<forall>k \<in> fst ` set example. \<exists>a. k = PStr a \<and> a \<notin> nm ` set fds"
  shows "example_fields (map PDict fds) example =
     Inr (example @ map (\<lambda>kvs. (PStr (nm kvs),
            case lookup kvs (PStr ''default'') of Some d \<Rightarrow> d | None \<Rightarrow> ex kvs)) fds)"
  using assms
proof (induction fds arbitrary: example)
  case Nil
  then show ?case by simp
next
  case (Cons kvs fds)
  from Cons.prems(1) obtain ty where
    n: "lookup kvs (PStr ''name'') = Some (PStr (nm kvs))" and
    t: "lookup kvs (PStr ''type'') = Some ty" by auto
  let ?v = "case lookup kvs (PStr ''default'') of Some d \<Rightarrow> d | None \<Rightarrow> ex kvs"
  have fresh: "dict_set example (PStr (nm kvs)) ?v = example @ [(PStr (nm kvs), ?v)]"
    by (rule dict_set_fresh) (use Cons.prems(4) in auto)
  have inv: "\<forall>k \<in> fst ` set (example @ [(PStr (nm kvs), ?v)]).
               \<exists>a. k = PStr a \<and> a \<notin> nm ` set fds"
    using Cons.prems(3,4) by auto
  have IH: "example_fields (map PDict fds) (example @ [(PStr (nm kvs), ?v)]) =
     Inr ((example @ [(PStr (nm kvs), ?v)]) @ map (\<lambda>kvs. (PStr (nm kvs),
            case lookup kvs (PStr ''default'') of Some d \<Rightarrow> d | None \<Rightarrow> ex kvs)) fds)"
    by (rule Cons.IH) (use Cons.prems inv in auto)
  show ?case
  proof (cases "lookup kvs (PStr ''default'')")
    case None
    with Cons.prems(2) t have "generate_example_value ty = Inr (ex kvs)"
      by (simp add: dict_get_def)
    with None IH fresh show ?thesis by (simp add: n t)
  next
    case (Some d)
    with IH fresh show ?thesis by (simp add: n t)
  qed
qed

text \<open>
  Claim C5. Take a schema text that parses to a record whose fields are dicts with a string
  \<^verbatim>\<open>name\<close>, all different, and a \<^verbatim>\<open>type\<close>. The \<^verbatim>\<open>required\<close> list of the translated
  schema holds, in order, the names of the fields that have no \<^verbatim>\<open>default\<close> key. The example
  message maps the name of every field to its default when the field has one, whatever the
  default is (\<^verbatim>\<open>0\<close>, \<^verbatim>\<open>false\<close> and the empty string too) and whatever example generation
  would do with its type; and to the generated example of its type otherwise. Example
  generation is supposed to succeed only on the types of the fields without a default.
\<close>

theorem field_defaults:
  assumes "json_loads s = Some (PDict avro)"
    and "lookup avro (PStr ''fields'') = Some (PList (map PDict fds))"
    and "\<forall>kvs \<in> set fds. lookup kvs (PStr ''name'') = Some (PStr (nm kvs))
             \<and> lookup kvs (PStr ''type'') \<noteq> None"
    and "\<forall>kvs \<in> set fds. lookup kvs (PStr ''default'') = None \<longrightarrow>
            generate_example_value (dict_get kvs ''type'' PNone) = Inr (ex kvs)"
    and "distinct (map nm fds)"
  shows "(\<exists>properties. avro_to_asyncapi_schema json_loads s =
            PDict [(PStr ''type'', PStr ''object''),
                   (PStr ''description'', dict_get avro ''doc'' (PStr [])),
                   (PStr ''properties'', PDict properties),
                   (PStr ''required'', PList (map (\<lambda>kvs. PStr (nm kvs))
                      (filter (\<lambda>kvs. lookup kvs (PStr ''default'') = None) fds)))])
    \<and> extract_message_examples json_loads s =
         PDict (map (\<lambda>kvs. (PStr (nm kvs),
            case lookup kvs (PStr ''default'') of Some d \<Rightarrow> d | None \<Rightarrow> ex kvs)) fds)"
proof -
  from schema_fields_required[OF assms(3), of "[]" "[]"]
  obtain properties where
    "schema_fields (map PDict fds) [] [] = Inr (properties, map (\<lambda>kvs. PStr (nm kvs))
            (filter (\<lambda>kvs. lookup kvs (PStr ''default'') = None) fds))"
    by (cases "schema_fields (map PDict fds) [] []") auto
  moreover have "example_fields (map PDict fds) [] =
     Inr (map (\<lambda>kvs. (PStr (nm kvs),
            case lookup kvs (PStr ''default'') of Some d \<Rightarrow> d | None \<Rightarrow> ex kvs)) fds)"
    using example_fields_map[OF assms(3,4,5), of "[]"] by simp
  ultimately show ?thesis
    by (simp add: avro_to_asyncapi_schema_def avro_to_asyncapi_schema_try_def
        extract_message_examples_def extract_message_examples_try_def assms(1,2) dict_get_def)
qed

theorem field_defaults_witness:
  "avro_to_asyncapi_schema example_loads user_schema_text =
     PDict [(PStr ''type'', PStr ''object''), (PStr ''description'', PStr ''A user''),
            (PStr ''properties'', PDict
               [(PStr ''id'', PDict [(PStr ''type'', PStr ''integer''),
                                    (PStr ''description'', PStr [])]),
                (PStr ''retries'', PDict [(PStr ''type'', PStr ''integer''),
                                         (PStr ''description'', PStr []),
                                         (PStr ''default'', PInt 0)]),
                (PStr ''active'', PDict [(PStr ''type'', PStr ''boolean''),
                                        (PStr ''description'', PStr []),
                                        (PStr ''default'', PBool False)]),
                (PStr ''note'', PDict [(PStr ''type'', PStr ''string''),
                                      (PStr ''description'', PStr []),
                                      (PStr ''default'', PStr [])]),
                (PStr ''tier'', PDict [(PStr ''type'', PStr ''string''),
                                      (PStr ''description'', PStr []),
                                      (PStr ''enum'', PInt 7),
                                      (PStr ''default'', PStr ''FREE'')])]),
            (PStr ''required'', PList [PStr ''id''])]
   \<and> extract_message_examples example_loads user_schema_text =
     PDict [(PStr ''id'', PInt 1234567890), (PStr ''retries'', PInt 0),
            (PStr ''active'', PBool False), (PStr ''note'', PStr []),
            (PStr ''tier'', PStr ''FREE'')]
   \<and> generate_example_value (PDict [(PStr ''type'', PStr ''enum''), (PStr ''name'', PStr ''Tier''),
                              (PStr ''symbols'', PInt 7)]) = Inl TypeError"
  using field_defaults [of example_loads user_schema_text user_schema user_fields
      "\<lambda>kvs. case lookup kvs (PStr ''name'') of Some (PStr n) \<Rightarrow> n | _ \<Rightarrow> []"
      "\<lambda>kvs. case generate_example_value (dict_get kvs ''type'' PNone) of
               Inr v \<Rightarrow> v | Inl e \<Rightarrow> PNone"]
  by (simp add: example_loads_def user_schema_def user_fields_def dict_get_def
      examples_def type_mapping_def avro_to_asyncapi_schema_def avro_to_asyncapi_schema_try_def)

section \<open>Malformed schemas\<close>

lemma py_item_dict: "py_item field key = Inr v \<Longrightarrow> \<exists>kvs. field = PDict kvs"
  by (cases field) auto

lemma schema_fields_fail_example_fields_fail:
  "schema_fields fs properties required = Inl e \<Longrightarrow> \<exists>e'. example_fields fs example = Inl e'"
proof (induction fs arbitrary: properties required example)
  case Nil
  then show ?case by simp
next
  case (Cons field rest)
  show ?case
  proof (cases "py_item field ''name''")
    case (Inl a)
    then show ?thesis by simp
  next
    case n: (Inr field_name)
    then obtain kvs where f: "field = PDict kvs" using py_item_dict by blast
    show ?thesis
    proof (cases "py_item field ''type''")
      case (Inl a)
      then show ?thesis by (simp add: n)
    next
      case t: (Inr field_type)
      obtain ty where ty: "py_item (convert_avro_type field_type) ''type'' = Inr ty"
        using convert_has_type by blast
      show ?thesis
      proof (cases "lookup kvs (PStr ''default'')")
        case None
        show ?thesis
        proof (cases "generate_example_value field_type")
          case (Inl a)
          then show ?thesis using n t f None by simp
        next
          case (Inr v)
          show ?thesis
          proof (cases "hashable field_name")
            case True
            with Cons.prems n t f None ty have
              "\<exists>p r. schema_fields rest p r = Inl e"
              by (auto simp add: Let_def split: if_splits)
            then obtain p r where "schema_fields rest p r = Inl e" by blast
            from Cons.IH[OF this] show ?thesis using n t f None Inr True by simp
          next
            case False
            then show ?thesis using n t f None Inr by simp
          qed
        qed
      next
        case (Some d)
        show ?thesis
        proof (cases "hashable field_name")
          case True
          with Cons.prems n t f Some ty have
            "\<exists>p r. schema_fields rest p r = Inl e"
            by (auto simp add: Let_def split: if_splits)
          then obtain p r where "schema_fields rest p r = Inl e" by blast
          from Cons.IH[OF this] show ?thesis using n t f Some True by simp
        next
          case False
          then show ?thesis using n t f Some by simp
        qed
      qed
    qed
  qed
qed

lemma try_fail_example_fail:
  "avro_to_asyncapi_schema_try json_loads s = Inl e \<Longrightarrow>
   \<exists>e'. extract_message_examples_try json_loads s = Inl e'"
proof -
  assume a: "avro_to_asyncapi_schema_try json_loads s = Inl e"
  show ?thesis
  proof (cases "json_loads s")
    case None
    then show ?thesis by (simp add: extract_message_examples_try_def)
  next
    case (Some avro)
    show ?thesis
    proof (cases avro)
      case (PDict kvs)
      show ?thesis
      proof (cases "py_iter (dict_get kvs ''fields'' (PList []))")
        case (Inl e1)
        then show ?thesis by (simp add: extract_message_examples_try_def Some PDict)
      next
        case (Inr fs)
        with a Some PDict obtain e1 where "schema_fields fs [] [] = Inl e1"
          by (auto simp add: avro_to_asyncapi_schema_try_def split: sum.splits)
        from schema_fields_fail_example_fields_fail[OF this, of "[]"]
        show ?thesis by (auto simp add: extract_message_examples_try_def Some PDict Inr)
      qed
    qed (simp_all add: extract_message_examples_try_def Some)
  qed
qed

text \<open>
  Claim C6. For every input text \<^verbatim>\<open>avro_to_asyncapi_schema\<close> returns a node of type
  \<^verbatim>\<open>object\<close> with a description, and \<^verbatim>\<open>extract_message_examples\<close> returns a dict: neither
  raises. When the text is not JSON, and more generally whenever the translation raises
  inside its \<^verbatim>\<open>try\<close> block, the node returned is the generic one, with the description
  \<^verbatim>\<open>Schema conversion error\<close>, which is not empty, and the example for the same text is the
  empty dict.
\<close>

theorem malformed_input:
  "(\<exists>d rest. avro_to_asyncapi_schema json_loads s =
        PDict ((PStr ''type'', PStr ''object'') # (PStr ''description'', d) # rest))
   \<and> (\<exists>example. extract_message_examples json_loads s = PDict example)
   \<and> (json_loads s = None \<or> avro_to_asyncapi_schema_try json_loads s = Inl e \<longrightarrow>
        avro_to_asyncapi_schema json_loads s =
          PDict [(PStr ''type'', PStr ''object''),
                 (PStr ''description'', PStr ''Schema conversion error'')]
        \<and> ''Schema conversion error'' \<noteq> []
        \<and> extract_message_examples json_loads s = PDict [])"
proof -
  have 1: "\<exists>d rest. avro_to_asyncapi_schema json_loads s =
        PDict ((PStr ''type'', PStr ''object'') # (PStr ''description'', d) # rest)"
    by (auto simp add: avro_to_asyncapi_schema_def avro_to_asyncapi_schema_try_def
        split: sum.splits option.splits prod.splits)
  have 2: "\<exists>example. extract_message_examples json_loads s = PDict example"
    by (auto simp add: extract_message_examples_def extract_message_examples_try_def
        split: sum.splits option.splits)
  have 3: "avro_to_asyncapi_schema json_loads s =
          PDict [(PStr ''type'', PStr ''object''),
                 (PStr ''description'', PStr ''Schema conversion error'')]
        \<and> extract_message_examples json_loads s = PDict []"
    if "avro_to_asyncapi_schema_try json_loads s = Inl e'" for e'
    using that try_fail_example_fail[OF that]
    by (auto simp add: avro_to_asyncapi_schema_def extract_message_examples_def)
  have 4: "avro_to_asyncapi_schema_try json_loads s = Inl JSONDecodeError" if "json_loads s = None"
    using that by (simp add: avro_to_asyncapi_schema_try_def)
  from 1 2 3 4 show ?thesis by auto
qed

theorem malformed_input_witness:
  "example_loads ''not json'' = None
   \<and> avro_to_asyncapi_schema example_loads ''not json'' =
       PDict [(PStr ''type'', PStr ''object''),
              (PStr ''description'', PStr ''Schema conversion error'')]
   \<and> extract_message_examples example_loads ''not json'' = PDict []
   \<and> avro_to_asyncapi_schema_try example_loads ''[1, 2]'' = Inl AttributeError
   \<and> avro_to_asyncapi_schema example_loads ''[1, 2]'' =
       PDict [(PStr ''type'', PStr ''object''),
              (PStr ''description'', PStr ''Schema conversion error'')]
   \<and> extract_message_examples example_loads ''[1, 2]'' = PDict []"
  using malformed_input [of example_loads "''not json''"]
    malformed_input [of example_loads "''[1, 2]''" AttributeError]
  by (simp add: example_loads_def user_schema_text_def avro_to_asyncapi_schema_try_def)

section \<open>Bulk deletion\<close>














section \<open>Hard deletion\<close>

lemma success_deletion_result:
  "success (deletion_result verb s r) =
     (status_code r = 200 \<and> (\<exists>v n. body r = Json v \<and> py_len v = Inr n))"
  by (auto simp add: deletion_result_def response_json_def split: sum.splits body.splits)

text \<open>
  Claim C7, as the code has it. \<^verbatim>\<open>hard_delete_subject\<close> first requests the soft deletion.
  If that request raises (a timeout, a connection error), the method returns the failure
  with the exception and requests nothing else. If it returns a response, whatever its
  status, the response is not looked at: the permanent deletion is requested next, and the
  result is decided by that request alone. It is a success exactly when the permanent
  deletion answers 200 with a JSON body that has a length.
\<close>

theorem hard_delete_sequence:
  "(respond reg tr (DeleteSubject s False) = Raises e \<longrightarrow>
      hard_delete_subject reg s tr = (Failure s [E e], tr @ [DeleteSubject s False]))
   \<and> (respond reg tr (DeleteSubject s False) = Returns r1 \<longrightarrow>
      snd (hard_delete_subject reg s tr) = tr @ [DeleteSubject s False, DeleteSubject s True]
      \<and> fst (hard_delete_subject reg s tr) =
          (case respond reg (tr @ [DeleteSubject s False]) (DeleteSubject s True) of
             Raises e' \<Rightarrow> Failure s [E e']
           | Returns r \<Rightarrow> deletion_result ''Permanently deleted '' s r)
      \<and> success (fst (hard_delete_subject reg s tr)) =
          (\<exists>r v n. respond reg (tr @ [DeleteSubject s False]) (DeleteSubject s True) = Returns r
                   \<and> status_code r = 200 \<and> body r = Json v \<and> py_len v = Inr n))"
  by (auto simp add: hard_delete_subject_def send_def success_deletion_result
      split: outcome.splits)

theorem hard_delete_sequence_witness:
  "hard_delete_subject flaky (PStr ''orders-value'') []
     = (Failure (PStr ''orders-value'') [E (Timeout ''Read timed out.'')],
        [DeleteSubject (PStr ''orders-value'') False])
   \<and> respond shop [] (DeleteSubject (PStr ''legacy-value'') False)
     = error_response 404 40404 ''Subject was soft deleted.''
   \<and> snd (hard_delete_subject shop (PStr ''legacy-value'') [])
     = [DeleteSubject (PStr ''legacy-value'') False, DeleteSubject (PStr ''legacy-value'') True]
   \<and> success (fst (hard_delete_subject shop (PStr ''legacy-value'') []))"
  using hard_delete_sequence [of flaky "[]" "PStr ''orders-value''" "Timeout ''Read timed out.''"]
    hard_delete_sequence [of shop "[]" "PStr ''legacy-value''" _
      "\<lparr>status_code = 404, body = Json (PDict [(PStr ''error_code'', PInt 40404),
                                  (PStr ''message'', PStr ''Subject was soft deleted.'')])\<rparr>"]
  by (simp add: flaky_def shop_def shop_versions_def error_response_def ok_response_def
      deletion_result_def response_json_def)

text \<open>
  The claim as stated (a soft deletion then a permanent one for every subject, the result
  decided by the permanent one alone) fails when the soft deletion times out: no permanent
  deletion is requested and the method reports a failure, although the registry would have
  answered 200 to it.
\<close>

theorem hard_delete_counterexample:
  "respond flaky [DeleteSubject (PStr ''orders-value'') False]
       (DeleteSubject (PStr ''orders-value'') True)
     = Returns \<lparr>status_code = 200, body = Json (PList [PInt 1, PInt 2])\<rparr>
   \<and> hard_delete_subject flaky (PStr ''orders-value'') []
     = (Failure (PStr ''orders-value'') [E (Timeout ''Read timed out.'')],
        [DeleteSubject (PStr ''orders-value'') False])"
  by (simp add: hard_delete_subject_def send_def flaky_def ok_response_def)

section \<open>Purging the soft-deleted subjects\<close>

lemma py_eq_PStr: "py_eq (PStr a) (PStr b) = (a = b)"
  by simp

lemma list_ex_py_eq_strings: "list_ex (\<lambda>x. py_eq x (PStr s)) (map PStr ys) = (s \<in> set ys)"
  by (induction ys) auto

lemma list_ex_atom_eq_strings: "list_ex (\<lambda>x. atom_eq x (PStr s)) (map PStr ys) = (s \<in> set ys)"
  by (induction ys) auto

lemma not_in_active_strings:
  "not_in_active (map PStr xs) (PList (map PStr ys))
     = Inr (map PStr (filter (\<lambda>s. s \<notin> set ys) xs))"
  by (induction xs) (simp_all add: list_ex_py_eq_strings list_ex_atom_eq_strings)

text \<open>
  Claim C8. When both listings are fetched (lists of subject names), \<^verbatim>\<open>purge_soft_deleted\<close>
  keeps the subjects of the listing with deleted ones that are not in the listing without
  them, in the order of the first listing: as a set, the difference of the two listings. If
  there is none it returns the success dict with count 0 and deletes nothing; otherwise it
  returns what \<^verbatim>\<open>bulk_hard_delete\<close> returns for exactly those subjects.
\<close>

theorem purge_reconciles:
  assumes "get_all_subjects reg True tr0 = (Inr (PList (map PStr with_deleted)), tr1)"
    and "get_all_subjects reg False tr1 = (Inr (PList (map PStr active)), tr2)"
  shows "set (filter (\<lambda>s. s \<notin> set active) with_deleted) = set with_deleted - set active
    \<and> purge_soft_deleted reg tr0 =
       (if filter (\<lambda>s. s \<notin> set active) with_deleted = []
        then (NothingToPurge [S ''No soft-deleted subjects found''] 0, tr2)
        else (Purged (fst (bulk_hard_delete reg
                       (map PStr (filter (\<lambda>s. s \<notin> set active) with_deleted)) tr2)),
              snd (bulk_hard_delete reg
                       (map PStr (filter (\<lambda>s. s \<notin> set active) with_deleted)) tr2)))"
  using assms
  by (auto simp add: purge_soft_deleted_def not_in_active_strings split: prod.splits)

theorem purge_reconciles_witness:
  "purge_soft_deleted shop [] =
     (Purged \<lparr>total = 1,
        successful = [Success (PStr ''legacy-value'') (PList [PInt 1, PInt 2, PInt 3])
                        [S ''Permanently deleted '', N 3, S '' versions'']],
        failed = [], timestamp = ''2024-01-01T12:00:00+00:00'',
        success_count = 1, failure_count = 0\<rparr>,
      [GetSubjects True, GetSubjects False,
       DeleteSubject (PStr ''legacy-value'') False,
       DeleteSubject (PStr ''legacy-value'') True])"
  using purge_reconciles [of shop "[]"
      "[''orders-value'', ''orders-key'', ''users-value'', ''audit-log'', ''legacy-value'']"
      "[GetSubjects True]"
      "[''orders-value'', ''orders-key'', ''users-value'', ''audit-log'']"
      "[GetSubjects True, GetSubjects False]"]
  by (simp add: get_all_subjects_def send_def shop_def ok_response_def raise_for_status_def
      response_json_def bulk_hard_delete_def bulk_delete_def hard_delete_subject_def
      deletion_result_def shop_versions_def error_response_def)

section \<open>Filtering subjects\<close>





lemma filter_loop_excludes:
  assumes m: "1 \<le> m"
    and fails: "\<And>tr. \<exists>err tr'. get_subject_details reg s tr = (DetailsError s err, tr')"
  shows "s \<notin> set filtered \<Longrightarrow>
     \<exists>filtered' tr'. filter_loop reg (Some m) pattern (map PStr names) filtered tr
                        = (Inr filtered', tr') \<and> s \<notin> set filtered'"
proof (induction names arbitrary: filtered tr)
  case Nil
  then show ?case by simp
next
  case (Cons n names)
  obtain d t where d: "get_subject_details reg (PStr n) tr = (d, t)"
    by (cases "get_subject_details reg (PStr n) tr")
  have excl: "PStr n = s \<Longrightarrow> int (version_count_or_0 d) < m"
  proof -
    assume "PStr n = s"
    with fails[of tr] d obtain err where "d = DetailsError s err" by auto
    with m show ?thesis by simp
  qed
  show ?case
  proof (cases "int (version_count_or_0 d) < m")
    case True
    from Cons.IH[OF Cons.prems, of t] True show ?thesis
      by (cases pattern) (auto simp add: d)
  next
    case False
    then have ns: "PStr n \<noteq> s" using excl by auto
    have a: "s \<notin> set (filtered @ [PStr n])" using ns Cons.prems by auto
    from Cons.IH[OF a, of t] Cons.IH[OF Cons.prems, of t] False show ?thesis
      by (cases pattern) (auto simp add: d)
  qed
qed

text \<open>
  Claim C10. Let \<^verbatim>\<open>min_versions\<close> be at least 1 and let \<^verbatim>\<open>get_subject_details\<close> fail for a
  subject (it returns the dict with \<^verbatim>\<open>"error"\<close>). The version count of that subject is
  taken as 0, and \<^verbatim>\<open>get_subjects_by_filter\<close> returns a list, not an error, that does not
  contain the subject.
\<close>

theorem failed_details_exclude:
  assumes "1 \<le> m"
    and "\<And>tr. \<exists>err tr'. get_subject_details reg s tr = (DetailsError s err, tr')"
    and "get_all_subjects reg False tr0 = (Inr (PList (map PStr names)), tr1)"
  shows "version_count_or_0 (fst (get_subject_details reg s tr)) = 0
    \<and> (\<exists>filtered tr2. get_subjects_by_filter reg (Some m) pattern tr0 = (Inr filtered, tr2)
          \<and> s \<notin> set filtered)"
proof -
  from assms(2)[of tr] have z: "version_count_or_0 (fst (get_subject_details reg s tr)) = 0"
    by auto
  from filter_loop_excludes[OF assms(1,2), of "[]" pattern names tr1]
  obtain filtered tr2 where
    "filter_loop reg (Some m) pattern (map PStr names) [] tr1 = (Inr filtered, tr2)"
    "s \<notin> set filtered" by auto
  then show ?thesis using z
    by (simp add: get_subjects_by_filter_def assms(3))
qed

theorem failed_details_exclude_witness:
  "version_count_or_0 (fst (get_subject_details shop (PStr ''audit-log'') [])) = 0
   \<and> get_subjects_by_filter shop (Some 1) None [] =
      (Inr [PStr ''orders-value'', PStr ''orders-key'', PStr ''users-value''],
       [GetSubjects False, GetVersions (PStr ''orders-value''),
        GetLatest (PStr ''orders-value''), GetVersions (PStr ''orders-key''),
        GetLatest (PStr ''orders-key''), GetVersions (PStr ''users-value''),
        GetLatest (PStr ''users-value''), GetVersions (PStr ''audit-log'')])
   \<and> PStr ''audit-log'' \<notin> set [PStr ''orders-value'', PStr ''orders-key'', PStr ''users-value'']"
proof -
  have f: "\<And>tr. \<exists>err tr'. get_subject_details shop (PStr ''audit-log'') tr
                = (DetailsError (PStr ''audit-log'') err, tr')"
    by (simp add: get_subject_details_def send_def shop_def)
  have g: "get_all_subjects shop False [] =
      (Inr (PList (map PStr [''orders-value'', ''orders-key'', ''users-value'', ''audit-log''])),
       [GetSubjects False])"
    by (simp add: get_all_subjects_def send_def shop_def ok_response_def raise_for_status_def
        response_json_def)
  have one: "(1::int) \<le> 1" by simp
  show ?thesis
    using failed_details_exclude [OF one f g, of "[]" None]
    by (simp add: get_subjects_by_filter_def get_all_subjects_def get_subject_details_def
        send_def shop_def ok_response_def error_response_def raise_for_status_def
        response_json_def shop_versions_def dict_get_def)
qed

section \<open>The subject count check\<close>

lemma check_subject_count_never_critical:
  "status (fst (check_subject_count reg c)) \<noteq> CRITICAL"
  by (simp add: check_subject_count_def get_def send_def error_result_def Let_def
      split: outcome.splits option.splits sum.splits prod.splits)

text \<open>
  Claim C3. The claim has \<^verbatim>\<open>_check_subject_count\<close> report CRITICAL and append an issue for
  a count above 5000. The code tests \<^verbatim>\<open>count > 1000\<close> first and \<^verbatim>\<open>count > 5000\<close> in its
  \<^verbatim>\<open>elif\<close>, which is never reached: with 5001 subjects the check reports WARNING, appends
  a warning and no issue.
\<close>

theorem subject_count_5001_is_warning:
  "check_subject_count crowded_registry \<lparr>trace = [], issues = [], warnings = []\<rparr> =
     (\<lparr>status = WARNING, message = [S ''Total subjects: '', N 5001], extras = [Count 5001]\<rparr>,
      \<lparr>trace = [GetSubjects False], issues = [],
       warnings = [[S ''High subject count: '', N 5001]]\<rparr>)"
  by (simp add: check_subject_count_def get_def send_def crowded_registry_def
      raise_for_status_def response_json_def Let_def)

section \<open>The aggregate status of the health report\<close>

lemma error_keeps_subject_count:
  "status (fst (check_subject_count reg c)) = ERROR \<Longrightarrow>
   issues (snd (check_subject_count reg c)) = issues c
   \<and> warnings (snd (check_subject_count reg c)) = warnings c"
  by (auto simp add: check_subject_count_def get_def send_def error_result_def Let_def
      split: outcome.splits option.splits sum.splits prod.splits if_splits)

lemma error_keeps_version_explosion:
  "status (fst (check_version_explosion reg c)) = ERROR \<Longrightarrow>
   issues (snd (check_version_explosion reg c)) = issues c
   \<and> warnings (snd (check_version_explosion reg c)) = warnings c"
  by (auto simp add: check_version_explosion_def get_json_def get_def send_def error_result_def
      split: outcome.splits sum.splits prod.splits if_splits)

lemma error_keeps_large_schemas:
  "status (fst (check_large_schemas reg c)) = ERROR \<Longrightarrow>
   issues (snd (check_large_schemas reg c)) = issues c
   \<and> warnings (snd (check_large_schemas reg c)) = warnings c"
  by (auto simp add: check_large_schemas_def get_json_def get_def send_def error_result_def
      split: outcome.splits sum.splits prod.splits if_splits)

lemma error_keeps_compatibility_config:
  "status (fst (check_compatibility_config reg c)) = ERROR \<Longrightarrow>
   issues (snd (check_compatibility_config reg c)) = issues c
   \<and> warnings (snd (check_compatibility_config reg c)) = warnings c"
  by (auto simp add: check_compatibility_config_def get_json_def get_def send_def error_result_def
      split: outcome.splits sum.splits prod.splits if_splits)

lemma error_keeps_orphaned_references:
  "status (fst (check_orphaned_references reg c)) = ERROR \<Longrightarrow>
   issues (snd (check_orphaned_references reg c)) = issues c
   \<and> warnings (snd (check_orphaned_references reg c)) = warnings c"
  by (auto simp add: check_orphaned_references_def get_json_def get_def send_def error_result_def
      split: outcome.splits sum.splits prod.splits if_splits)

lemma error_keeps_soft_deleted:
  "status (fst (check_soft_deleted reg c)) = ERROR \<Longrightarrow>
   issues (snd (check_soft_deleted reg c)) = issues c"
  by (auto simp add: check_soft_deleted_def get_json_def get_def send_def error_result_def Let_def
      split: outcome.splits sum.splits prod.splits if_splits)

lemma connectivity_not_error: "status (fst (check_connectivity reg c)) \<noteq> ERROR"
  by (auto simp add: check_connectivity_def get_def send_def Let_def
      split: outcome.splits option.splits prod.splits)

lemma check_all_summary:
  "summary (fst (check_all reg c)) =
     \<lparr>total_issues = length (issues (snd (check_all reg c))),
      total_warnings = length (warnings (snd (check_all reg c))),
      summary_issues = issues (snd (check_all reg c)),
      summary_warnings = warnings (snd (check_all reg c)),
      summary_status =
        (if issues (snd (check_all reg c)) \<noteq> [] then CRITICAL
         else if warnings (snd (check_all reg c)) \<noteq> [] then WARNING else OK)\<rparr>"
  by (simp add: check_all_def split: prod.splits)

text \<open>
  Claim C1. In the report of \<^verbatim>\<open>check_all\<close> the status of the summary is CRITICAL exactly
  when the issues list is not empty, WARNING exactly when the issues list is empty and the
  warnings list is not, and OK exactly when both are empty; the lists are \<^verbatim>\<open>self.issues\<close>
  and \<^verbatim>\<open>self.warnings\<close> as the seven checks leave them. The status that a check reports
  does not enter: a check that reports ERROR changes the summary by the entries it has
  appended only. The connectivity check never reports ERROR; the subject count, version
  explosion, large schemas, compatibility and orphaned references checks append nothing
  when they report ERROR; the soft-deleted check appends no issue when it reports ERROR.
\<close>

theorem aggregate_status:
  "(summary_status (summary (fst (check_all reg c))) = CRITICAL
      \<longleftrightarrow> summary_issues (summary (fst (check_all reg c))) \<noteq> [])
   \<and> (summary_status (summary (fst (check_all reg c))) = WARNING
      \<longleftrightarrow> summary_issues (summary (fst (check_all reg c))) = []
          \<and> summary_warnings (summary (fst (check_all reg c))) \<noteq> [])
   \<and> (summary_status (summary (fst (check_all reg c))) = OK
      \<longleftrightarrow> summary_issues (summary (fst (check_all reg c))) = []
          \<and> summary_warnings (summary (fst (check_all reg c))) = [])
   \<and> summary_issues (summary (fst (check_all reg c))) = issues (snd (check_all reg c))
   \<and> summary_warnings (summary (fst (check_all reg c))) = warnings (snd (check_all reg c))
   \<and> status (fst (check_connectivity reg c)) \<noteq> ERROR
   \<and> (status (fst (check_subject_count reg c)) = ERROR \<longrightarrow>
        issues (snd (check_subject_count reg c)) = issues c
        \<and> warnings (snd (check_subject_count reg c)) = warnings c)
   \<and> (status (fst (check_version_explosion reg c)) = ERROR \<longrightarrow>
        issues (snd (check_version_explosion reg c)) = issues c
        \<and> warnings (snd (check_version_explosion reg c)) = warnings c)
   \<and> (status (fst (check_large_schemas reg c)) = ERROR \<longrightarrow>
        issues (snd (check_large_schemas reg c)) = issues c
        \<and> warnings (snd (check_large_schemas reg c)) = warnings c)
   \<and> (status (fst (check_compatibility_config reg c)) = ERROR \<longrightarrow>
        issues (snd (check_compatibility_config reg c)) = issues c
        \<and> warnings (snd (check_compatibility_config reg c)) = warnings c)
   \<and> (status (fst (check_soft_deleted reg c)) = ERROR \<longrightarrow>
        issues (snd (check_soft_deleted reg c)) = issues c)
   \<and> (status (fst (check_orphaned_references reg c)) = ERROR \<longrightarrow>
        issues (snd (check_orphaned_references reg c)) = issues c
        \<and> warnings (snd (check_orphaned_references reg c)) = warnings c)"
  using error_keeps_subject_count [of reg c] error_keeps_version_explosion [of reg c]
    error_keeps_large_schemas [of reg c] error_keeps_compatibility_config [of reg c]
    error_keeps_soft_deleted [of reg c] error_keeps_orphaned_references [of reg c]
    connectivity_not_error [of reg c]
  by (simp add: check_all_summary)

lemmas check_defs = check_all_def check_connectivity_def check_subject_count_def
  check_version_explosion_def check_large_schemas_def check_compatibility_config_def
  check_soft_deleted_def check_orphaned_references_def get_json_def get_def send_def
  error_result_def raise_for_status_def response_json_def first_subjects_def

theorem aggregate_status_witness:
  "map (\<lambda>(name, r). (name, status r)) (checks (fst (check_all portal new_checker))) =
     [(''connectivity'', OK), (''subject_count'', ERROR), (''version_explosion'', ERROR),
      (''large_schemas'', ERROR), (''compatibility'', ERROR), (''soft_deleted'', ERROR),
      (''orphaned_refs'', ERROR)]
   \<and> summary_issues (summary (fst (check_all portal new_checker))) = []
   \<and> summary_warnings (summary (fst (check_all portal new_checker))) = []
   \<and> summary_status (summary (fst (check_all portal new_checker))) = OK
   \<and> summary_issues (summary (fst (check_all down new_checker))) =
       [[S ''Connectivity: '', S ''Connection timeout (>10s)'']]
   \<and> summary_status (summary (fst (check_all down new_checker))) = CRITICAL"
  using aggregate_status [of portal new_checker] aggregate_status [of down new_checker]
  by (simp add: check_defs portal_def down_def new_checker_def Let_def)

end
